theory Spec2Isabelle
  imports Complex_Main "HOL-Library.Multiset"
begin

section \<open>Numbers, points and boxes\<close>

text \<open>
  The component \<^verbatim>\<open>src/components/FranceMap.tsx\<close> computes with JavaScript numbers.
  They are modelled as \<^typ>\<open>real\<close>: every constant of the source is a small decimal and
  the operations used are \<open>+\<close>, \<open>-\<close>, \<open>*\<close>, \<open>/\<close> and comparisons, so the model leaves
  out only rounding, infinities and NaN.
\<close>

type_synonym point = "real \<times> real"

type_synonym box = "point \<times> point"

section \<open>Inset layout: \<^verbatim>\<open>DROM_CODES\<close> and \<^verbatim>\<open>getDromConfig\<close> (lines 15-48)\<close>

definition DROM_CODES :: "string list" where
  "DROM_CODES = [''971'', ''972'', ''973'', ''974'', ''976'']"

record drom_entry =
  name :: string
  initials :: string
  box :: box

text \<open>
  The object literal returned by \<^verbatim>\<open>getDromConfig\<close> is an association list in the
  order of the source; \<^verbatim>\<open>dromConfig[code]\<close> is \<^const>\<open>map_of\<close> on it. The letter
  U+00E9 of the name of code 974 is the single character \<open>CHR 0xE9\<close>.
\<close>

definition getDromConfig :: "bool \<Rightarrow> (string \<times> drom_entry) list" where
  "getDromConfig isMobile =
     (if isMobile then
        (let boxSize = (60 :: real);
             gap = (12 :: real);
             totalWidth = (boxSize * 5) + (gap * 4);
             startX = (550 - totalWidth) / 2;
             startY = (390 :: real)
         in [(''971'', \<lparr>name = ''Guadeloupe'', initials = ''GP'',
                box = ((startX, startY), (startX + boxSize, startY + boxSize))\<rparr>),
             (''972'', \<lparr>name = ''Martinique'', initials = ''MQ'',
                box = ((startX + 1 * (boxSize + gap), startY),
                       (startX + 1 * (boxSize + gap) + boxSize, startY + boxSize))\<rparr>),
             (''973'', \<lparr>name = ''Guyane'', initials = ''GF'',
                box = ((startX + 2 * (boxSize + gap), startY),
                       (startX + 2 * (boxSize + gap) + boxSize, startY + boxSize))\<rparr>),
             (''974'', \<lparr>name = ''La R'' @ [CHR 0xE9] @ ''union'', initials = ''RE'',
                box = ((startX + 3 * (boxSize + gap), startY),
                       (startX + 3 * (boxSize + gap) + boxSize, startY + boxSize))\<rparr>),
             (''976'', \<lparr>name = ''Mayotte'', initials = ''YT'',
                box = ((startX + 4 * (boxSize + gap), startY),
                       (startX + 4 * (boxSize + gap) + boxSize, startY + boxSize))\<rparr>)])
      else
        [(''971'', \<lparr>name = ''Guadeloupe'', initials = ''GP'', box = ((5, 20), (75, 100))\<rparr>),
         (''972'', \<lparr>name = ''Martinique'', initials = ''MQ'', box = ((5, 120), (75, 200))\<rparr>),
         (''973'', \<lparr>name = ''Guyane'', initials = ''GF'', box = ((5, 220), (75, 300))\<rparr>),
         (''974'', \<lparr>name = ''La R'' @ [CHR 0xE9] @ ''union'', initials = ''RE'',
            box = ((5, 320), (75, 400))\<rparr>),
         (''976'', \<lparr>name = ''Mayotte'', initials = ''YT'', box = ((5, 420), (75, 500))\<rparr>)])"

text \<open>The canvas of the SVG: its \<^verbatim>\<open>viewBox\<close> attribute (line 214).\<close>

definition viewBox :: "bool \<Rightarrow> box" where
  "viewBox isMobile = (if isMobile then ((0, 0), (550, 450)) else ((0, 0), (550, 550)))"

section \<open>Temporal overlay: \<^verbatim>\<open>isNight\<close> and \<^verbatim>\<open>highlightColor\<close> (lines 133-145)\<close>

record solar =
  sunrise :: real
  sunset :: real

text \<open>
  The table \<^verbatim>\<open>SOLAR_TIMES\<close> is imported from \<^verbatim>\<open>../constants\<close>, which is not among
  the sources, so it is a parameter: a lookup by month that yields a solar window or
  nothing (\<^verbatim>\<open>undefined\<close>). \<open>solarFor\<close> is the expression
  \<^verbatim>\<open>SOLAR_TIMES[month] || { sunrise: 360, sunset: 1080 }\<close> of lines 135 and 140.
\<close>

definition solarFor :: "(string \<Rightarrow> solar option) \<Rightarrow> string \<Rightarrow> solar" where
  "solarFor SOLAR_TIMES month =
     (case SOLAR_TIMES month of
        Some s \<Rightarrow> s
      | None \<Rightarrow> \<lparr>sunrise = 360, sunset = 1080\<rparr>)"

definition isNight :: "(string \<Rightarrow> solar option) \<Rightarrow> real \<Rightarrow> string \<Rightarrow> bool" where
  "isNight SOLAR_TIMES time month =
     (let solar = solarFor SOLAR_TIMES month
      in time < sunrise solar \<or> time > sunset solar)"

definition highlightColor :: "(string \<Rightarrow> solar option) \<Rightarrow> real \<Rightarrow> string \<Rightarrow> string" where
  "highlightColor SOLAR_TIMES time month =
     (let solar = solarFor SOLAR_TIMES month
      in if time \<ge> sunrise solar - 60 \<and> time < sunrise solar + 30 then ''#fbbf24''
         else if time \<ge> sunrise solar + 30 \<and> time < sunset solar - 60 then ''#06b6d4''
         else if time \<ge> sunset solar - 60 \<and> time < sunset solar + 60 then ''#db2777''
         else ''#38bdf8'')"

text \<open>
  The bands and colours as the specification names them, to state the claims with:
  \<open>[sunrise - 60, sunrise + 30)\<close>, \<open>[sunrise + 30, sunset - 60)\<close> and
  \<open>[sunset - 60, sunset + 60)\<close>.
\<close>

definition dawnBand :: "solar \<Rightarrow> real \<Rightarrow> bool" where
  "dawnBand s t = (sunrise s - 60 \<le> t \<and> t < sunrise s + 30)"

definition dayBand :: "solar \<Rightarrow> real \<Rightarrow> bool" where
  "dayBand s t = (sunrise s + 30 \<le> t \<and> t < sunset s - 60)"

definition duskBand :: "solar \<Rightarrow> real \<Rightarrow> bool" where
  "duskBand s t = (sunset s - 60 \<le> t \<and> t < sunset s + 60)"

definition dawnColor :: string where
  "dawnColor = ''#fbbf24''"

definition dayColor :: string where
  "dayColor = ''#06b6d4''"

definition duskColor :: string where
  "duskColor = ''#db2777''"

definition nightColor :: string where
  "nightColor = ''#38bdf8''"

section \<open>Viewport controller (lines 55-121)\<close>

subsection \<open>The zoom behaviour of the d3-zoom library\<close>

record transform =
  scaleK :: real
  translateX :: real
  translateY :: real

definition zoomIdentity :: transform where
  "zoomIdentity = \<lparr>scaleK = 1, translateX = 0, translateY = 0\<rparr>"

record zoom_behavior =
  scaleExtent :: "real \<times> real"
  translateExtent :: box

text \<open>
  Modelled from the spec: the functions of this subsection belong to the library
  \<^verbatim>\<open>d3-zoom\<close> (imported at line 4), whose code is not among the sources. The
  specification says of it that a requested scale is clamped to the scale extent and
  that panning is bounded by the translate extent; the definitions write this out the
  way the library computes it: a transform \<open>(k, x, y)\<close> maps a content point \<open>p\<close> to
  \<open>k * p + (x, y)\<close>, \<open>scale_tf\<close> clamps the requested scale, \<open>translate_tf\<close> moves the
  content point \<open>p1\<close> under the screen point \<open>p0\<close>, and \<open>constrain\<close> shifts the
  transform so that the viewport, seen in content coordinates, stays inside the
  translate extent (centred on it when the viewport is larger than the extent). The
  viewport extent of an SVG element with a \<^verbatim>\<open>viewBox\<close> attribute is that view box.
\<close>

definition invertX :: "transform \<Rightarrow> real \<Rightarrow> real" where
  "invertX t px = (px - translateX t) / scaleK t"

definition invertY :: "transform \<Rightarrow> real \<Rightarrow> real" where
  "invertY t py = (py - translateY t) / scaleK t"

definition invert :: "transform \<Rightarrow> point \<Rightarrow> point" where
  "invert t p = (invertX t (fst p), invertY t (snd p))"

definition scale_tf :: "real \<times> real \<Rightarrow> transform \<Rightarrow> real \<Rightarrow> transform" where
  "scale_tf ext t k = t\<lparr>scaleK := max (fst ext) (min (snd ext) k)\<rparr>"

definition translate_tf :: "transform \<Rightarrow> point \<Rightarrow> point \<Rightarrow> transform" where
  "translate_tf t p0 p1 =
     t\<lparr>translateX := fst p0 - fst p1 * scaleK t, translateY := snd p0 - snd p1 * scaleK t\<rparr>"

definition shift_tf :: "transform \<Rightarrow> real \<Rightarrow> real \<Rightarrow> transform" where
  "shift_tf t dx dy =
     t\<lparr>translateX := translateX t + scaleK t * dx, translateY := translateY t + scaleK t * dy\<rparr>"

text \<open>\<open>a || b\<close> on numbers: \<open>b\<close> when \<open>a\<close> is zero.\<close>

definition num_or :: "real \<Rightarrow> real \<Rightarrow> real" where
  "num_or a b = (if a = 0 then b else a)"

definition constrain :: "transform \<Rightarrow> box \<Rightarrow> box \<Rightarrow> transform" where
  "constrain t extent te =
     (let dx0 = invertX t (fst (fst extent)) - fst (fst te);
          dx1 = invertX t (fst (snd extent)) - fst (snd te);
          dy0 = invertY t (snd (fst extent)) - snd (fst te);
          dy1 = invertY t (snd (snd extent)) - snd (snd te)
      in shift_tf t
           (if dx1 > dx0 then (dx0 + dx1) / 2 else num_or (min 0 dx0) (max 0 dx1))
           (if dy1 > dy0 then (dy0 + dy1) / 2 else num_or (min 0 dy0) (max 0 dy1)))"

definition centroid :: "box \<Rightarrow> point" where
  "centroid extent =
     ((fst (fst extent) + fst (snd extent)) / 2, (snd (fst extent) + snd (snd extent)) / 2)"

text \<open>
  A gesture that asks for the scale \<open>k\<close> with the content point \<open>p1\<close> under the screen
  point \<open>p0\<close> (wheel, pinch), a gesture that only pans (drag), and the programmatic
  \<^verbatim>\<open>scaleTo\<close> and \<^verbatim>\<open>scaleBy\<close>, which zoom about the centre of the viewport.
\<close>

definition gesture_zoom ::
  "zoom_behavior \<Rightarrow> box \<Rightarrow> transform \<Rightarrow> real \<Rightarrow> point \<Rightarrow> point \<Rightarrow> transform" where
  "gesture_zoom z extent t k p0 p1 =
     constrain (translate_tf (scale_tf (scaleExtent z) t k) p0 p1) extent (translateExtent z)"

definition gesture_pan :: "zoom_behavior \<Rightarrow> box \<Rightarrow> transform \<Rightarrow> point \<Rightarrow> point \<Rightarrow> transform" where
  "gesture_pan z extent t p0 p1 = constrain (translate_tf t p0 p1) extent (translateExtent z)"

definition scaleTo :: "zoom_behavior \<Rightarrow> box \<Rightarrow> transform \<Rightarrow> real \<Rightarrow> transform" where
  "scaleTo z extent t0 k1 =
     (let p0 = centroid extent; p1 = invert t0 p0
      in constrain (translate_tf (scale_tf (scaleExtent z) t0 k1) p0 p1) extent (translateExtent z))"

definition scaleBy :: "zoom_behavior \<Rightarrow> box \<Rightarrow> transform \<Rightarrow> real \<Rightarrow> transform" where
  "scaleBy z extent t0 k = scaleTo z extent t0 (scaleK t0 * k)"

subsection \<open>The component's configuration and handlers\<close>

text \<open>The behaviour built at lines 76-81.\<close>

definition createZoom :: "bool \<Rightarrow> zoom_behavior" where
  "createZoom isMobile =
     \<lparr>scaleExtent = (1, 8),
      translateExtent = ((0, 0), (550, if isMobile then 450 else 550))\<rparr>"

record zoom_event =
  etype :: string
  ctrlKey :: bool

text \<open>The gesture filter of lines 85-91.\<close>

definition zoom_filter :: "zoom_event \<Rightarrow> bool" where
  "zoom_filter event =
     (if etype event = ''touchstart'' \<or> etype event = ''mousedown'' then True
      else if etype event = ''wheel'' \<and> ctrlKey event then True
      else False)"

text \<open>
  Modelled from the spec: the listeners that the library attaches to the SVG element
  (their code is the library's, not among the sources). They ask the filter first and
  return without touching the transform when it answers false; the update they apply
  otherwise is the one of the gesture. \<open>wheeled\<close> is the wheel listener (\<open>delta\<close> is the
  wheel delta, \<open>p\<close> the pointer); \<open>dragged\<close> is a pointer move of a drag that the event
  \<open>event\<close> started; \<open>pinched\<close> is a touch move of a gesture that \<open>event\<close> started.
\<close>

definition wheeled ::
  "zoom_behavior \<Rightarrow> box \<Rightarrow> zoom_event \<Rightarrow> real \<Rightarrow> point \<Rightarrow> transform \<Rightarrow> transform" where
  "wheeled z extent event delta p t =
     (if \<not> zoom_filter event then t
      else gesture_zoom z extent t (scaleK t * 2 powr delta) p (invert t p))"

definition dragged ::
  "zoom_behavior \<Rightarrow> box \<Rightarrow> zoom_event \<Rightarrow> point \<Rightarrow> point \<Rightarrow> transform \<Rightarrow> transform" where
  "dragged z extent event p0 p1 t =
     (if \<not> zoom_filter event then t else gesture_pan z extent t p0 p1)"

definition pinched ::
  "zoom_behavior \<Rightarrow> box \<Rightarrow> zoom_event \<Rightarrow> real \<Rightarrow> point \<Rightarrow> point \<Rightarrow> transform \<Rightarrow> transform" where
  "pinched z extent event k p0 p1 t =
     (if \<not> zoom_filter event then t else gesture_zoom z extent t k p0 p1)"

text \<open>
  The state the handlers read: the device class, whether the SVG element is mounted
  (\<^verbatim>\<open>svgRef.current\<close>), the stored behaviour (\<^verbatim>\<open>zoomBehaviorRef.current\<close>) and the
  current transform of the SVG element.
\<close>

record view_state =
  isMobile :: bool
  svgRef :: bool
  zoomBehaviorRef :: "zoom_behavior option"
  zoomTransform :: transform

text \<open>The effect of lines 70-99; it returns at once when the SVG is not mounted.\<close>

definition initializeZoom :: "view_state \<Rightarrow> view_state" where
  "initializeZoom st =
     (if \<not> svgRef st then st
      else st\<lparr>zoomBehaviorRef := Some (createZoom (isMobile st)),
              zoomTransform := zoomIdentity\<rparr>)"

text \<open>
  A handler starts a transition: its duration in milliseconds and the transform it ends
  in. With a reference missing the handler does nothing (\<open>None\<close>).
\<close>

datatype transition = Transition (duration: nat) (target: transform)

definition handleZoomIn :: "view_state \<Rightarrow> transition option" where
  "handleZoomIn st =
     (case zoomBehaviorRef st of
        None \<Rightarrow> None
      | Some z \<Rightarrow>
          if svgRef st
          then Some (Transition 300 (scaleBy z (viewBox (isMobile st)) (zoomTransform st) 1.5))
          else None)"

definition handleZoomOut :: "view_state \<Rightarrow> transition option" where
  "handleZoomOut st =
     (case zoomBehaviorRef st of
        None \<Rightarrow> None
      | Some z \<Rightarrow>
          if svgRef st
          then Some (Transition 300 (scaleBy z (viewBox (isMobile st)) (zoomTransform st) 0.66))
          else None)"

definition handleReset :: "view_state \<Rightarrow> transition option" where
  "handleReset st =
     (case zoomBehaviorRef st of
        None \<Rightarrow> None
      | Some z \<Rightarrow> if svgRef st then Some (Transition 500 zoomIdentity) else None)"

text \<open>
  A state to evaluate the handlers at: desktop, mounted, zoom behaviour stored, the map
  zoomed to three times its size.
\<close>

definition exampleState :: view_state where
  "exampleState = \<lparr>isMobile = False, svgRef = True, zoomBehaviorRef = Some (createZoom False),
      zoomTransform = \<lparr>scaleK = 3, translateX = - 550, translateY = - 550\<rparr>\<rparr>"

section \<open>Geometry source adapter (lines 123-131 and 169-170)\<close>

text \<open>
  What a JavaScript exception is in the model: the \<^verbatim>\<open>TypeError\<close> of reading a
  property of \<^verbatim>\<open>undefined\<close> or calling what is not a function, and an exception
  thrown by the projection library.
\<close>

datatype js_error = TypeError | ProjectionError

text \<open>
  A feature of the fetched collection. \<open>code\<close> is \<^verbatim>\<open>String(f.properties.code)\<close>,
  \<open>nom\<close> is \<^verbatim>\<open>f.properties.nom\<close>; a feature whose \<^verbatim>\<open>properties\<close> is missing has
  \<open>None\<close> there, and reading its code throws. The geometry is a list of rings.
\<close>

record feature_properties =
  code :: string
  nom :: string

record feature =
  properties :: "feature_properties option"
  geometry :: "point list list"

text \<open>
  The value of \<^verbatim>\<open>geoData.features\<close>: falsy (missing, \<^verbatim>\<open>null\<close>, ...), an array of
  features, or some other truthy value, which has no \<^verbatim>\<open>filter\<close> method.
\<close>

datatype features_field = Falsy | NotArray | Features "feature list"

record geo_data =
  features :: features_field

text \<open>
  The fetch of lines 123-131: a rejected fetch or an unreadable body ends in the
  \<^verbatim>\<open>catch\<close> branch, which stores \<^verbatim>\<open>{ features: [] }\<close>; otherwise the parsed
  value is stored as it is (\<open>None\<close> when it is falsy, such as \<^verbatim>\<open>null\<close>).
\<close>

datatype fetch_result = FetchFailed | FetchLoaded "geo_data option"

definition loadGeoData :: "fetch_result \<Rightarrow> geo_data option" where
  "loadGeoData r =
     (case r of
        FetchFailed \<Rightarrow> Some \<lparr>features = Features []\<rparr>
      | FetchLoaded data \<Rightarrow> data)"

text \<open>\<^verbatim>\<open>Array.prototype.filter\<close>, \<^verbatim>\<open>find\<close> and \<^verbatim>\<open>map\<close> with a callback that may throw.\<close>

fun filter_js :: "('a \<Rightarrow> js_error + bool) \<Rightarrow> 'a list \<Rightarrow> js_error + 'a list" where
  "filter_js p [] = Inr []"
| "filter_js p (a # as) =
     (case p a of
        Inl e \<Rightarrow> Inl e
      | Inr b \<Rightarrow>
          (case filter_js p as of
             Inl e \<Rightarrow> Inl e
           | Inr r \<Rightarrow> Inr (if b then a # r else r)))"

fun find_js :: "('a \<Rightarrow> js_error + bool) \<Rightarrow> 'a list \<Rightarrow> js_error + 'a option" where
  "find_js p [] = Inr None"
| "find_js p (a # as) =
     (case p a of
        Inl e \<Rightarrow> Inl e
      | Inr b \<Rightarrow> if b then Inr (Some a) else find_js p as)"

fun map_js :: "('a \<Rightarrow> js_error + 'b) \<Rightarrow> 'a list \<Rightarrow> js_error + 'b list" where
  "map_js f [] = Inr []"
| "map_js f (a # as) =
     (case f a of
        Inl e \<Rightarrow> Inl e
      | Inr b \<Rightarrow>
          (case map_js f as of
             Inl e \<Rightarrow> Inl e
           | Inr r \<Rightarrow> Inr (b # r)))"

text \<open>\<^verbatim>\<open>String(f.properties.code)\<close>.\<close>

definition regionCode :: "feature \<Rightarrow> js_error + string" where
  "regionCode f =
     (case properties f of
        None \<Rightarrow> Inl TypeError
      | Some props \<Rightarrow> Inr (code props))"

definition metropoleFeatures :: "geo_data \<Rightarrow> js_error + feature list" where
  "metropoleFeatures geoData =
     (case features geoData of
        Falsy \<Rightarrow> Inr []
      | NotArray \<Rightarrow> Inl TypeError
      | Features fs \<Rightarrow>
          filter_js
            (\<lambda>f. case regionCode f of
                    Inl e \<Rightarrow> Inl e
                  | Inr c \<Rightarrow> Inr (c \<notin> set DROM_CODES)) fs)"

definition dromFeatures :: "geo_data \<Rightarrow> js_error + feature list" where
  "dromFeatures geoData =
     (case features geoData of
        Falsy \<Rightarrow> Inr []
      | NotArray \<Rightarrow> Inl TypeError
      | Features fs \<Rightarrow>
          filter_js
            (\<lambda>f. case regionCode f of
                    Inl e \<Rightarrow> Inl e
                  | Inr c \<Rightarrow> Inr (c \<in> set DROM_CODES)) fs)"

text \<open>
  The region class of a feature as the specification defines it, to state the claims
  with: inset when the code is one of the five inset codes, mainland otherwise.
\<close>

definition isInset :: "feature \<Rightarrow> bool" where
  "isInset f =
     (case properties f of
        None \<Rightarrow> False
      | Some props \<Rightarrow> code props \<in> set DROM_CODES)"

section \<open>Rendering of the regions (lines 231-337)\<close>

text \<open>
  The path generators belong to the library \<^verbatim>\<open>d3-geo\<close> and are parameters. A call
  throws, returns \<^verbatim>\<open>null\<close> or returns a path string. \<open>truthyPath\<close> is what
  \<^verbatim>\<open>r || undefined\<close> and the test \<^verbatim>\<open>dAttribute ? ... : ...\<close> keep of a result: a
  non-empty string.
\<close>

datatype path_result = Throws | NullPath | PathString string

definition truthyPath :: "path_result \<Rightarrow> string option" where
  "truthyPath r =
     (case r of
        Throws \<Rightarrow> None
      | NullPath \<Rightarrow> None
      | PathString s \<Rightarrow> if s = [] then None else Some s)"

text \<open>
  The group drawn for a mainland feature: its key, the name that entering it stores as
  the hovered region, the name that a click reports, and the attributes of its path.
\<close>

record main_group =
  mg_key :: string
  mg_enter :: string
  mg_click :: string
  mg_d :: "string option"
  mg_fill :: string
  mg_stroke :: string
  mg_strokeWidth :: real

definition renderMetropole ::
  "(feature \<Rightarrow> path_result) \<Rightarrow> string option \<Rightarrow> string option \<Rightarrow> string \<Rightarrow> feature
     \<Rightarrow> js_error + main_group" where
  "renderMetropole mainPathGenerator selectedRegion hoveredDept hc feature =
     (case properties feature of
        None \<Rightarrow> Inl TypeError
      | Some props \<Rightarrow>
          (let isSelected = (selectedRegion = Some (nom props));
               isHovered = (hoveredDept = Some (nom props))
           in case mainPathGenerator feature of
                Throws \<Rightarrow> Inl ProjectionError
              | r \<Rightarrow>
                  Inr \<lparr>mg_key = code props,
                       mg_enter = nom props,
                       mg_click = nom props,
                       mg_d = truthyPath r,
                       mg_fill = (if isSelected then hc
                                  else if isHovered then ''rgba(255,255,255,0.15)''
                                  else ''rgba(255, 255, 255, 0.05)''),
                       mg_stroke = (if isSelected \<or> isHovered then ''#ffffff''
                                    else ''rgba(255, 255, 255, 0.4)''),
                       mg_strokeWidth = (if isSelected then 1.5 else 0.6)\<rparr>))"

text \<open>
  The group drawn for an inset code: the rectangle \<open>(x, y, width, height)\<close> of its box,
  then either the fitted shape or the initials at \<open>(x, y)\<close>, then the name label.
\<close>

datatype inset_shape = ShapePath string | InitialsText real real string

record inset_group =
  ig_key :: string
  ig_enter :: string
  ig_click :: string
  ig_rect :: "real \<times> real \<times> real \<times> real"
  ig_shape :: inset_shape
  ig_label :: "real \<times> real \<times> string"

text \<open>
  The extent handed to \<^verbatim>\<open>fitExtent\<close> at line 277: the box of the inset less 5 at the
  left and right, 10 at the top and 15 at the bottom. The call of \<open>fitPath\<close> stands
  for the whole \<^verbatim>\<open>try\<close> block of lines 275-281, whose \<^verbatim>\<open>catch\<close> leaves
  \<^verbatim>\<open>dAttribute\<close> undefined. Colours and stroke widths of the inset group are left
  out.
\<close>

definition fitExtentOf :: "box \<Rightarrow> box" where
  "fitExtentOf b =
     (case b of ((x0, y0), (x1, y1)) \<Rightarrow> ((x0 + 5, y0 + 10), (x1 - 5, y1 - 15)))"

definition renderDrom ::
  "(box \<Rightarrow> feature \<Rightarrow> path_result) \<Rightarrow> (string \<times> drom_entry) list \<Rightarrow> feature list \<Rightarrow> string
     \<Rightarrow> js_error + inset_group option" where
  "renderDrom fitPath dromConfig droms c =
     (case find_js (\<lambda>f. case regionCode f of
                          Inl e \<Rightarrow> Inl e
                        | Inr c' \<Rightarrow> Inr (c' = c)) droms of
        Inl e \<Rightarrow> Inl e
      | Inr found \<Rightarrow>
          (case map_of dromConfig c of
             None \<Rightarrow> Inr None
           | Some config \<Rightarrow>
               (case box config of
                  ((x0, y0), (x1, y1)) \<Rightarrow>
                    (let width = x1 - x0;
                         height = y1 - y0;
                         dAttribute =
                           (case found of
                              None \<Rightarrow> None
                            | Some f \<Rightarrow> truthyPath (fitPath (fitExtentOf (box config)) f))
                     in Inr (Some
                          \<lparr>ig_key = c,
                           ig_enter = name config,
                           ig_click = name config,
                           ig_rect = (x0, y0, width, height),
                           ig_shape =
                             (case dAttribute of
                                Some s \<Rightarrow> ShapePath s
                              | None \<Rightarrow>
                                  InitialsText (x0 + width / 2) (y0 + height / 2 + 5)
                                    (initials config)),
                           ig_label = (x0 + width / 2, y1 - 6, name config)\<rparr>)))))"

text \<open>
  The component: the loading placeholder while no data is stored, otherwise the night
  overlay, the mainland groups and one group per inset code.
\<close>

datatype view =
  Loading
| MapView (nightOverlay: bool) (mainGroups: "main_group list")
    (insetGroups: "inset_group option list")

definition FranceMap ::
  "(string \<Rightarrow> solar option) \<Rightarrow> (bool \<Rightarrow> feature \<Rightarrow> path_result) \<Rightarrow> (box \<Rightarrow> feature \<Rightarrow> path_result)
     \<Rightarrow> string option \<Rightarrow> real \<Rightarrow> string \<Rightarrow> geo_data option \<Rightarrow> string option \<Rightarrow> bool
     \<Rightarrow> js_error + view" where
  "FranceMap SOLAR_TIMES mainPathGenerator fitPath selectedRegion time month geoData
      hoveredDept mobile =
     (case geoData of
        None \<Rightarrow> Inr Loading
      | Some g \<Rightarrow>
          (case metropoleFeatures g of
             Inl e \<Rightarrow> Inl e
           | Inr ms \<Rightarrow>
               (case dromFeatures g of
                  Inl e \<Rightarrow> Inl e
                | Inr ds \<Rightarrow>
                    (case map_js (renderMetropole (mainPathGenerator mobile) selectedRegion
                             hoveredDept (highlightColor SOLAR_TIMES time month)) ms of
                       Inl e \<Rightarrow> Inl e
                     | Inr mg \<Rightarrow>
                         (case map_js (renderDrom fitPath (getDromConfig mobile) ds)
                                  DROM_CODES of
                            Inl e \<Rightarrow> Inl e
                          | Inr ig \<Rightarrow>
                              Inr (MapView (isNight SOLAR_TIMES time month) mg ig))))))"

section \<open>Inputs to evaluate the rendering at\<close>

text \<open>
  An inset feature with an empty ring list, a mainland feature with one ring, a fitted
  path generator that returns \<^verbatim>\<open>null\<close> for an empty geometry, and a main path
  generator that returns \<^verbatim>\<open>null\<close> for every feature.
\<close>

definition guadeloupe :: feature where
  "guadeloupe = \<lparr>properties = Some \<lparr>code = ''971'', nom = ''Guadeloupe''\<rparr>, geometry = []\<rparr>"

definition ain :: feature where
  "ain = \<lparr>properties = Some \<lparr>code = ''01'', nom = ''Ain''\<rparr>,
           geometry = [[(5, 46), (6, 46), (5, 45), (5, 46)]]\<rparr>"

definition exampleFit :: "box \<Rightarrow> feature \<Rightarrow> path_result" where
  "exampleFit b f = (if geometry f = [] then NullPath else PathString ''M0,0L1,1Z'')"

definition nullGenerator :: "feature \<Rightarrow> path_result" where
  "nullGenerator f = NullPath"

section \<open>Properties of the inset layout\<close>

lemma getDromConfig_keys: "map fst (getDromConfig m) = DROM_CODES"
  by (simp add: getDromConfig_def DROM_CODES_def Let_def)

lemma mobile_boxes:
  "map (box \<circ> snd) (getDromConfig True) =
     [((101, 390), (161, 450)), ((173, 390), (233, 450)), ((245, 390), (305, 450)),
      ((317, 390), (377, 450)), ((389, 390), (449, 450))]"
  by (simp add: getDromConfig_def Let_def)

text \<open>
  Claim C9. The mobile layout is a single row of five boxes, one per inset code in the
  order of \<^const>\<open>DROM_CODES\<close>: box number \<open>i\<close> starts at
  \<open>startX + i * (60 + 12)\<close> with \<open>startX = (550 - (5 * 60 + 4 * 12)) / 2\<close>, is 60 wide
  and 60 high, and starts at the fixed \<open>y = 390\<close>, so that it ends on the bottom edge
  of the 550 by 450 canvas. The row is centred: the space left of the first box equals
  the space right of the last box. Whatever the device class, the keys of the layout
  are exactly the five inset codes, each once.
\<close>

theorem C9_mobile_row_centered:
  "map (box \<circ> snd) (getDromConfig True) =
     map (\<lambda>i. let startX = (550 - (5 * 60 + 4 * 12)) / 2; x0 = startX + real i * (60 + 12)
               in ((x0, 390), (x0 + 60, 390 + 60))) [0..<5]
   \<and> fst (fst (box (snd (hd (getDromConfig True))))) - fst (fst (viewBox True))
       = fst (snd (viewBox True)) - fst (snd (box (snd (last (getDromConfig True)))))
   \<and> list_all (\<lambda>e. snd (snd (box (snd e))) = snd (snd (viewBox True))) (getDromConfig True)
   \<and> map fst (getDromConfig m) = DROM_CODES
   \<and> dom (map_of (getDromConfig m)) = set DROM_CODES
   \<and> distinct (map fst (getDromConfig m))
   \<and> length (getDromConfig m) = 5"
proof -
  have up: "[0..<5] = [0, 1, 2, 3, 4]"
    by (simp add: upt_rec)
  have row: "map (box \<circ> snd) (getDromConfig True) =
     map (\<lambda>i. let startX = (550 - (5 * 60 + 4 * 12)) / 2; x0 = startX + real i * (60 + 12)
               in ((x0, 390), (x0 + 60, 390 + 60))) [0..<5]"
    unfolding mobile_boxes up by (simp add: Let_def)
  have centred: "fst (fst (box (snd (hd (getDromConfig True))))) - fst (fst (viewBox True))
       = fst (snd (viewBox True)) - fst (snd (box (snd (last (getDromConfig True)))))"
    by (simp add: getDromConfig_def viewBox_def Let_def)
  have bottom: "list_all (\<lambda>e. snd (snd (box (snd e))) = snd (snd (viewBox True)))
      (getDromConfig True)"
    by (simp add: getDromConfig_def viewBox_def Let_def)
  have keys: "map fst (getDromConfig m) = DROM_CODES"
    by (rule getDromConfig_keys)
  have dist: "distinct DROM_CODES"
    by (simp add: DROM_CODES_def)
  have doms: "dom (map_of (getDromConfig m)) = set DROM_CODES"
    by (simp add: dom_map_of_conv_image_fst flip: keys)
  have len: "length (getDromConfig m) = 5"
    using arg_cong [OF keys, of length] by (simp add: DROM_CODES_def)
  show ?thesis
    using row centred bottom keys doms dist len by (simp only: keys simp_thms)
qed

section \<open>Properties of the viewport controller\<close>

subsection \<open>Scale and translation under the library's operations\<close>

lemma scaleK_shift_tf [simp]: "scaleK (shift_tf t dx dy) = scaleK t"
  by (simp add: shift_tf_def)

lemma scaleK_constrain [simp]: "scaleK (constrain t e te) = scaleK t"
  by (simp add: constrain_def Let_def)

lemma scaleK_translate_tf [simp]: "scaleK (translate_tf t p0 p1) = scaleK t"
  by (simp add: translate_tf_def)

lemma scaleK_scale_tf [simp]: "scaleK (scale_tf ext t k) = max (fst ext) (min (snd ext) k)"
  by (simp add: scale_tf_def)

lemma scaleK_gesture_zoom: "scaleK (gesture_zoom (createZoom m) e t k p0 p1) = max 1 (min 8 k)"
  by (simp add: gesture_zoom_def createZoom_def)

lemma scaleK_scaleBy: "scaleK (scaleBy (createZoom m) e t f) = max 1 (min 8 (scaleK t * f))"
  by (simp add: scaleBy_def scaleTo_def Let_def createZoom_def)

lemma scaleK_gesture_pan: "scaleK (gesture_pan z e t p0 p1) = scaleK t"
  by (simp add: gesture_pan_def)

lemma num_or_between:
  assumes "dx1 \<le> dx0"
  shows "num_or (min 0 dx0) (max 0 dx1) \<le> dx0 \<and> dx1 \<le> num_or (min 0 dx0) (max 0 dx1)"
  using assms by (auto simp: num_or_def min_def max_def)

lemma invertX_shift_tf:
  assumes "scaleK t \<noteq> 0"
  shows "invertX (shift_tf t dx dy) px = invertX t px - dx"
  using assms by (simp add: invertX_def shift_tf_def field_simps)

lemma invertY_shift_tf:
  assumes "scaleK t \<noteq> 0"
  shows "invertY (shift_tf t dx dy) py = invertY t py - dy"
  using assms by (simp add: invertY_def shift_tf_def field_simps)

lemma viewport_not_wider:
  assumes k: "1 \<le> k" and w: "(0::real) \<le> w"
  shows "(w - x) / k - w \<le> (0 - x) / k - 0"
proof -
  have "1 * w \<le> k * w"
    using k w by (rule mult_right_mono)
  then have "w / k \<le> w"
    using k by (simp add: field_simps)
  then show ?thesis
    by (simp add: diff_divide_distrib)
qed

lemma constrain_x:
  assumes k: "1 \<le> scaleK t" and w: "0 \<le> w"
  shows "0 \<le> invertX (constrain t ((0, 0), (w, h)) ((0, 0), (w, h))) 0
       \<and> invertX (constrain t ((0, 0), (w, h)) ((0, 0), (w, h))) w \<le> w"
proof -
  define dx0 where "dx0 = invertX t 0 - 0"
  define dx1 where "dx1 = invertX t w - w"
  have nz: "scaleK t \<noteq> 0" using k by simp
  have le: "dx1 \<le> dx0"
    unfolding dx0_def dx1_def invertX_def using viewport_not_wider [OF k w] by simp
  have btw: "num_or (min 0 dx0) (max 0 dx1) \<le> dx0 \<and> dx1 \<le> num_or (min 0 dx0) (max 0 dx1)"
    by (rule num_or_between [OF le])
  have "invertX (constrain t ((0, 0), (w, h)) ((0, 0), (w, h))) px
      = invertX t px - num_or (min 0 dx0) (max 0 dx1)" for px
    using le by (simp add: constrain_def Let_def invertX_shift_tf [OF nz] dx0_def dx1_def)
  then show ?thesis
    using btw by (simp add: dx0_def dx1_def)
qed

lemma constrain_y:
  assumes k: "1 \<le> scaleK t" and h: "0 \<le> h"
  shows "0 \<le> invertY (constrain t ((0, 0), (w, h)) ((0, 0), (w, h))) 0
       \<and> invertY (constrain t ((0, 0), (w, h)) ((0, 0), (w, h))) h \<le> h"
proof -
  define dy0 where "dy0 = invertY t 0 - 0"
  define dy1 where "dy1 = invertY t h - h"
  have nz: "scaleK t \<noteq> 0" using k by simp
  have le: "dy1 \<le> dy0"
    unfolding dy0_def dy1_def invertY_def using viewport_not_wider [OF k h] by simp
  have btw: "num_or (min 0 dy0) (max 0 dy1) \<le> dy0 \<and> dy1 \<le> num_or (min 0 dy0) (max 0 dy1)"
    by (rule num_or_between [OF le])
  have "invertY (constrain t ((0, 0), (w, h)) ((0, 0), (w, h))) py
      = invertY t py - num_or (min 0 dy0) (max 0 dy1)" for py
    using le by (simp add: constrain_def Let_def invertY_shift_tf [OF nz] dy0_def dy1_def)
  then show ?thesis
    using btw by (simp add: dy0_def dy1_def)
qed

lemma constrain_viewBox:
  assumes k: "1 \<le> scaleK t"
  shows "0 \<le> invertX (constrain t (viewBox m) (translateExtent (createZoom m))) 0
       \<and> invertX (constrain t (viewBox m) (translateExtent (createZoom m))) 550 \<le> 550
       \<and> 0 \<le> invertY (constrain t (viewBox m) (translateExtent (createZoom m))) 0
       \<and> invertY (constrain t (viewBox m) (translateExtent (createZoom m)))
            (if m then 450 else 550) \<le> (if m then 450 else 550)"
proof (cases m)
  case True
  then show ?thesis
    using constrain_x [OF k, of 550 450] constrain_y [OF k, of 450 550]
    by (simp add: viewBox_def createZoom_def)
next
  case False
  then show ?thesis
    using constrain_x [OF k, of 550 550] constrain_y [OF k, of 550 550]
    by (simp add: viewBox_def createZoom_def)
qed


lemma gesture_pan_window:
  assumes k: "1 \<le> scaleK t"
  shows "0 \<le> invertX (gesture_pan (createZoom m) (viewBox m) t p0 p1) 0
       \<and> invertX (gesture_pan (createZoom m) (viewBox m) t p0 p1) 550 \<le> 550
       \<and> 0 \<le> invertY (gesture_pan (createZoom m) (viewBox m) t p0 p1) 0
       \<and> invertY (gesture_pan (createZoom m) (viewBox m) t p0 p1)
            (if m then 450 else 550) \<le> (if m then 450 else 550)"
proof -
  have "1 \<le> scaleK (translate_tf t p0 p1)"
    using k by simp
  then show ?thesis
    unfolding gesture_pan_def by (rule constrain_viewBox)
qed

lemma gesture_zoom_window:
  "0 \<le> invertX (gesture_zoom (createZoom m) (viewBox m) t k p0 p1) 0
       \<and> invertX (gesture_zoom (createZoom m) (viewBox m) t k p0 p1) 550 \<le> 550
       \<and> 0 \<le> invertY (gesture_zoom (createZoom m) (viewBox m) t k p0 p1) 0
       \<and> invertY (gesture_zoom (createZoom m) (viewBox m) t k p0 p1)
            (if m then 450 else 550) \<le> (if m then 450 else 550)"
proof -
  have "1 \<le> scaleK (translate_tf (scale_tf (scaleExtent (createZoom m)) t k) p0 p1)"
    by (simp add: createZoom_def)
  then show ?thesis
    unfolding gesture_zoom_def by (rule constrain_viewBox)
qed

lemma window_translation:
  assumes k: "1 \<le> scaleK t" and lo: "0 \<le> invertX t 0" and hi: "invertX t w \<le> w"
  shows "w * (1 - scaleK t) \<le> translateX t \<and> translateX t \<le> 0"
proof -
  have kpos: "0 < scaleK t" using k by simp
  have "translateX t \<le> 0"
    using lo kpos by (simp add: invertX_def field_simps)
  moreover have "w - translateX t \<le> w * scaleK t"
    using hi kpos by (simp add: invertX_def field_simps)
  ultimately show ?thesis
    by (simp add: algebra_simps)
qed

lemma window_translation_y:
  assumes k: "1 \<le> scaleK t" and lo: "0 \<le> invertY t 0" and hi: "invertY t h \<le> h"
  shows "h * (1 - scaleK t) \<le> translateY t \<and> translateY t \<le> 0"
proof -
  have kpos: "0 < scaleK t" using k by simp
  have "translateY t \<le> 0"
    using lo kpos by (simp add: invertY_def field_simps)
  moreover have "h - translateY t \<le> h * scaleK t"
    using hi kpos by (simp add: invertY_def field_simps)
  ultimately show ?thesis
    by (simp add: algebra_simps)
qed

lemma clamp_cases: "max 1 (min 8 k) = (if k < 1 then 1 else if 8 < k then 8 else (k::real))"
  by (simp add: max_def min_def)

lemma clamp_range: "1 \<le> max 1 (min 8 (k::real)) \<and> max 1 (min 8 k) \<le> 8"
  by (simp add: max_def min_def)

subsection \<open>The scale stays between 1 and 8\<close>

text \<open>
  Claim C1. With the behaviour the component builds (scale extent \<open>[1, 8]\<close>), every
  request for a scale \<open>k\<close>, from a wheel or pinch gesture or from the programmatic
  \<^verbatim>\<open>scaleBy\<close> behind the zoom buttons, yields the scale \<open>k\<close> clamped to \<open>[1, 8]\<close>: 1
  when \<open>k < 1\<close>, 8 when \<open>k > 8\<close>, \<open>k\<close> otherwise. Starting from a transform whose scale
  is in \<open>[1, 8]\<close>, the scale after any listener (which may ignore the event) or button
  handler is again in \<open>[1, 8]\<close>, and a drag leaves the scale as it is. Every operation
  returns a transform; none has an error result.
\<close>

theorem C1_scale_within_1_8:
  assumes lo: "1 \<le> scaleK t" and hi: "scaleK t \<le> 8"
    and z: "z = createZoom m"
  shows "scaleK (gesture_zoom z e t k p0 p1) = (if k < 1 then 1 else if 8 < k then 8 else k)
       \<and> scaleK (scaleBy z e t f)
           = (if scaleK t * f < 1 then 1 else if 8 < scaleK t * f then 8 else scaleK t * f)
       \<and> 1 \<le> scaleK (gesture_zoom z e t k p0 p1) \<and> scaleK (gesture_zoom z e t k p0 p1) \<le> 8
       \<and> 1 \<le> scaleK (scaleBy z e t f) \<and> scaleK (scaleBy z e t f) \<le> 8
       \<and> 1 \<le> scaleK (wheeled z e ev delta p t) \<and> scaleK (wheeled z e ev delta p t) \<le> 8
       \<and> 1 \<le> scaleK (pinched z e ev k p0 p1 t) \<and> scaleK (pinched z e ev k p0 p1 t) \<le> 8
       \<and> scaleK (dragged z e ev p0 p1 t) = scaleK t
       \<and> (zoomBehaviorRef st = Some z \<and> zoomTransform st = t \<longrightarrow>
            (case handleZoomIn st of None \<Rightarrow> True
             | Some tr \<Rightarrow> 1 \<le> scaleK (target tr) \<and> scaleK (target tr) \<le> 8)
          \<and> (case handleZoomOut st of None \<Rightarrow> True
             | Some tr \<Rightarrow> 1 \<le> scaleK (target tr) \<and> scaleK (target tr) \<le> 8)
          \<and> (case handleReset st of None \<Rightarrow> True
             | Some tr \<Rightarrow> 1 \<le> scaleK (target tr) \<and> scaleK (target tr) \<le> 8))"
proof -
  have gz: "scaleK (gesture_zoom z e t k' q0 q1) = max 1 (min 8 k')" for k' q0 q1
    unfolding z by (rule scaleK_gesture_zoom)
  have sb: "scaleK (scaleBy z e' t' f') = max 1 (min 8 (scaleK t' * f'))" for e' t' f'
    unfolding z by (rule scaleK_scaleBy)
  have c1: "scaleK (gesture_zoom z e t k p0 p1) = (if k < 1 then 1 else if 8 < k then 8 else k)"
    unfolding gz by (rule clamp_cases)
  have c2: "scaleK (scaleBy z e t f)
           = (if scaleK t * f < 1 then 1 else if 8 < scaleK t * f then 8 else scaleK t * f)"
    unfolding sb by (rule clamp_cases)
  have c3: "1 \<le> scaleK (gesture_zoom z e t k p0 p1) \<and> scaleK (gesture_zoom z e t k p0 p1) \<le> 8"
    unfolding gz by (rule clamp_range)
  have c4: "1 \<le> scaleK (scaleBy z e t f) \<and> scaleK (scaleBy z e t f) \<le> 8"
    unfolding sb by (rule clamp_range)
  have c5: "1 \<le> scaleK (wheeled z e ev delta p t) \<and> scaleK (wheeled z e ev delta p t) \<le> 8"
    using lo hi clamp_range by (simp add: wheeled_def gz)
  have c6: "1 \<le> scaleK (pinched z e ev k p0 p1 t) \<and> scaleK (pinched z e ev k p0 p1 t) \<le> 8"
    using lo hi clamp_range by (simp add: pinched_def gz)
  have c7: "scaleK (dragged z e ev p0 p1 t) = scaleK t"
    by (simp add: dragged_def scaleK_gesture_pan)
  have c8: "zoomBehaviorRef st = Some z \<and> zoomTransform st = t \<longrightarrow>
            (case handleZoomIn st of None \<Rightarrow> True
             | Some tr \<Rightarrow> 1 \<le> scaleK (target tr) \<and> scaleK (target tr) \<le> 8)
          \<and> (case handleZoomOut st of None \<Rightarrow> True
             | Some tr \<Rightarrow> 1 \<le> scaleK (target tr) \<and> scaleK (target tr) \<le> 8)
          \<and> (case handleReset st of None \<Rightarrow> True
             | Some tr \<Rightarrow> 1 \<le> scaleK (target tr) \<and> scaleK (target tr) \<le> 8)"
    using clamp_range
    by (simp add: handleZoomIn_def handleZoomOut_def handleReset_def sb zoomIdentity_def)
  show ?thesis
    using c1 c2 c3 c4 c5 c6 c7 c8 by (simp only: simp_thms)
qed

theorem C1_scale_within_1_8_witness:
  "scaleK (gesture_zoom (createZoom False) (viewBox False) zoomIdentity 20 (10, 10) (10, 10)) = 8
   \<and> scaleK (scaleBy (createZoom False) (viewBox False) zoomIdentity 0.66) = 1
   \<and> scaleK (scaleBy (createZoom False) (viewBox False) zoomIdentity 1.5) = 1.5"
proof -
  have lo: "1 \<le> scaleK zoomIdentity" and hi: "scaleK zoomIdentity \<le> 8"
    by (simp_all add: zoomIdentity_def)
  have a: "scaleK (gesture_zoom (createZoom False) (viewBox False) zoomIdentity 20 (10, 10) (10, 10)) = 8"
    using C1_scale_within_1_8 [where t = zoomIdentity and m = False and e = "viewBox False"
        and k = 20 and ?p0.0 = "(10, 10)" and ?p1.0 = "(10, 10)", OF lo hi refl]
    by simp
  have b: "scaleK (scaleBy (createZoom False) (viewBox False) zoomIdentity 0.66) = 1"
    using C1_scale_within_1_8 [where t = zoomIdentity and m = False and e = "viewBox False"
        and f = "0.66", OF lo hi refl]
    by (simp add: zoomIdentity_def)
  have c: "scaleK (scaleBy (createZoom False) (viewBox False) zoomIdentity 1.5) = 1.5"
    using C1_scale_within_1_8 [where t = zoomIdentity and m = False and e = "viewBox False"
        and f = "1.5", OF lo hi refl]
    by (simp add: zoomIdentity_def)
  show ?thesis using a b c by simp
qed

subsection \<open>Panning stays on the canvas\<close>

text \<open>
  Claim C5. The translate extent of the behaviour and the viewport of the SVG are both
  \<open>[[0, 0], [550, H]]\<close> with \<open>H = 550\<close> on desktop and \<open>H = 450\<close> on mobile. After every
  pan of a transform whose scale is at least 1, the canvas seen in content coordinates
  stays inside that box: its left and top edges are at or after 0, its right edge at or
  before 550 and its bottom edge at or before \<open>H\<close>. Said of the translation: it is
  clamped to \<open>550 * (1 - k) \<le> x \<le> 0\<close> and \<open>H * (1 - k) \<le> y \<le> 0\<close> for the scale \<open>k\<close>,
  which a pan leaves unchanged.
\<close>

theorem C5_pan_within_canvas:
  assumes k: "1 \<le> scaleK t"
    and t': "t' = gesture_pan (createZoom m) (viewBox m) t p0 p1"
    and H: "H = (if m then 450 else 550)"
  shows "translateExtent (createZoom m) = ((0, 0), (550, H))
       \<and> viewBox m = ((0, 0), (550, H))
       \<and> scaleK t' = scaleK t
       \<and> 0 \<le> invertX t' 0 \<and> invertX t' 550 \<le> 550
       \<and> 0 \<le> invertY t' 0 \<and> invertY t' H \<le> H
       \<and> 550 * (1 - scaleK t') \<le> translateX t' \<and> translateX t' \<le> 0
       \<and> H * (1 - scaleK t') \<le> translateY t' \<and> translateY t' \<le> 0"
proof -
  have ext: "translateExtent (createZoom m) = ((0, 0), (550, H))"
    and vb: "viewBox m = ((0, 0), (550, H))"
    by (simp_all add: createZoom_def viewBox_def H)
  have sc: "scaleK t' = scaleK t"
    by (simp add: t' scaleK_gesture_pan)
  have win: "0 \<le> invertX t' 0 \<and> invertX t' 550 \<le> 550
      \<and> 0 \<le> invertY t' 0 \<and> invertY t' H \<le> H"
    unfolding t' H by (rule gesture_pan_window [OF k])
  have k': "1 \<le> scaleK t'"
    using k sc by simp
  have trx: "550 * (1 - scaleK t') \<le> translateX t' \<and> translateX t' \<le> 0"
    using window_translation [OF k', of 550] win by simp
  have tr_y: "H * (1 - scaleK t') \<le> translateY t' \<and> translateY t' \<le> 0"
    using window_translation_y [OF k', of H] win by simp
  show ?thesis
    using ext vb sc win trx tr_y by simp
qed

theorem C5_pan_within_canvas_witness:
  "gesture_pan (createZoom True) (viewBox True)
      \<lparr>scaleK = 2, translateX = - 100, translateY = - 100\<rparr> (700, 10) (50, 400)
     = \<lparr>scaleK = 2, translateX = 0, translateY = - 450\<rparr>
   \<and> 450 * (1 - 2) \<le> translateY (gesture_pan (createZoom True) (viewBox True)
      \<lparr>scaleK = 2, translateX = - 100, translateY = - 100\<rparr> (700, 10) (50, 400))"
proof -
  have k: "1 \<le> scaleK \<lparr>scaleK = 2, translateX = - 100, translateY = - 100\<rparr>"
    by simp
  have v: "gesture_pan (createZoom True) (viewBox True)
      \<lparr>scaleK = 2, translateX = - 100, translateY = - 100\<rparr> (700, 10) (50, 400)
     = \<lparr>scaleK = 2, translateX = 0, translateY = - 450\<rparr>"
    by (simp add: gesture_pan_def createZoom_def viewBox_def translate_tf_def constrain_def
        Let_def invertX_def invertY_def shift_tf_def num_or_def)
  show ?thesis
    using C5_pan_within_canvas [OF k refl, of 450 True "(700, 10)" "(50, 400)"] v by simp
qed

subsection \<open>The gesture filter\<close>

text \<open>
  Claim C4. The filter accepts an event exactly when its type is \<open>mousedown\<close> or
  \<open>touchstart\<close>, whatever the Ctrl key, or its type is \<open>wheel\<close> and the Ctrl key is
  held. A wheel event without Ctrl leaves the transform unchanged, as does every
  rejected event in each listener; accepted events reach the zoom or pan update.
\<close>

theorem C4_gesture_filter:
  "(zoom_filter ev \<longleftrightarrow>
      etype ev = ''mousedown'' \<or> etype ev = ''touchstart'' \<or> (etype ev = ''wheel'' \<and> ctrlKey ev))
   \<and> (etype ev = ''wheel'' \<and> \<not> ctrlKey ev \<longrightarrow> wheeled z e ev delta p t = t)
   \<and> (\<not> zoom_filter ev \<longrightarrow>
        wheeled z e ev delta p t = t \<and> dragged z e ev p0 p1 t = t \<and> pinched z e ev k p0 p1 t = t)
   \<and> (etype ev = ''wheel'' \<and> ctrlKey ev \<longrightarrow>
        wheeled z e ev delta p t = gesture_zoom z e t (scaleK t * 2 powr delta) p (invert t p))
   \<and> (etype ev = ''mousedown'' \<longrightarrow> dragged z e ev p0 p1 t = gesture_pan z e t p0 p1)
   \<and> (etype ev = ''touchstart'' \<longrightarrow> pinched z e ev k p0 p1 t = gesture_zoom z e t k p0 p1)"
  by (auto simp: zoom_filter_def wheeled_def dragged_def pinched_def)

theorem C4_gesture_filter_witness:
  "wheeled (createZoom False) (viewBox False) \<lparr>etype = ''wheel'', ctrlKey = False\<rparr> (- 1) (100, 100)
      \<lparr>scaleK = 2, translateX = - 100, translateY = - 50\<rparr>
     = \<lparr>scaleK = 2, translateX = - 100, translateY = - 50\<rparr>
   \<and> \<not> zoom_filter \<lparr>etype = ''dblclick'', ctrlKey = True\<rparr>
   \<and> zoom_filter \<lparr>etype = ''mousedown'', ctrlKey = False\<rparr>"
  using C4_gesture_filter [of "\<lparr>etype = ''wheel'', ctrlKey = False\<rparr>" "createZoom False"
      "viewBox False" "- 1" "(100, 100)" "\<lparr>scaleK = 2, translateX = - 100, translateY = - 50\<rparr>"]
    C4_gesture_filter [of "\<lparr>etype = ''dblclick'', ctrlKey = True\<rparr>"]
    C4_gesture_filter [of "\<lparr>etype = ''mousedown'', ctrlKey = False\<rparr>"]
  by simp

subsection \<open>The zoom buttons\<close>

lemma handler_guard:
  "handleZoomIn st = None \<longleftrightarrow> zoomBehaviorRef st = None \<or> \<not> svgRef st"
  "handleZoomOut st = None \<longleftrightarrow> zoomBehaviorRef st = None \<or> \<not> svgRef st"
  by (auto simp: handleZoomIn_def handleZoomOut_def split: option.splits)

lemma initializeZoom_state:
  "svgRef st \<Longrightarrow> zoomBehaviorRef (initializeZoom st) = Some (createZoom (isMobile st))"
  "svgRef st \<Longrightarrow> zoomTransform (initializeZoom st) = zoomIdentity"
  "\<not> svgRef st \<Longrightarrow> initializeZoom st = st"
  by (simp_all add: initializeZoom_def)

text \<open>
  Claim C3, as amended. With the behaviour stored and the SVG mounted, the zoom-in
  handler starts a transition of 300 ms that ends at the current scale times 1.5,
  clamped to \<open>[1, 8]\<close>, and the zoom-out handler starts a transition of 300 ms that ends
  at the current scale times 0.66, clamped to \<open>[1, 8]\<close>.
\<close>

theorem C3_zoom_factors:
  assumes z: "zoomBehaviorRef st = Some (createZoom m)" and svg: "svgRef st"
  shows "map_option duration (handleZoomIn st) = Some 300
       \<and> map_option (scaleK \<circ> target) (handleZoomIn st)
           = Some (max 1 (min 8 (scaleK (zoomTransform st) * 1.5)))
       \<and> map_option duration (handleZoomOut st) = Some 300
       \<and> map_option (scaleK \<circ> target) (handleZoomOut st)
           = Some (max 1 (min 8 (scaleK (zoomTransform st) * 0.66)))"
  using z svg by (simp add: handleZoomIn_def handleZoomOut_def scaleK_scaleBy)

theorem C3_zoom_factors_witness:
  "map_option (scaleK \<circ> target) (handleZoomOut exampleState) = Some 1.98
   \<and> map_option (scaleK \<circ> target) (handleZoomIn exampleState) = Some 4.5
   \<and> map_option duration (handleZoomOut exampleState) = Some 300"
proof -
  have z: "zoomBehaviorRef exampleState = Some (createZoom False)" and svg: "svgRef exampleState"
    by (simp_all add: exampleState_def)
  show ?thesis
    using C3_zoom_factors [OF z svg] by (simp add: exampleState_def)
qed

text \<open>
  The claim as written gives the zoom-out factor as \<open>1 / 1.5\<close>. At scale 3 that would
  end at scale 2; the handler ends at \<open>3 * 0.66 = 1.98\<close>.
\<close>

theorem C3_zoom_out_factor_counterexample:
  "map_option (scaleK \<circ> target) (handleZoomOut exampleState) = Some 1.98
   \<and> max 1 (min 8 (scaleK (zoomTransform exampleState) * (1 / 1.5))) = (2 :: real)
   \<and> map_option (scaleK \<circ> target) (handleZoomOut exampleState)
       \<noteq> Some (max 1 (min 8 (scaleK (zoomTransform exampleState) * (1 / 1.5))))"
  by (simp add: exampleState_def handleZoomOut_def scaleK_scaleBy)

section \<open>Properties of the temporal overlay\<close>

lemma highlightColor_bands:
  "highlightColor T t month =
     (if dawnBand (solarFor T month) t then dawnColor
      else if dayBand (solarFor T month) t then dayColor
      else if duskBand (solarFor T month) t then duskColor
      else nightColor)"
  by (simp add: highlightColor_def Let_def dawnBand_def dayBand_def duskBand_def
      dawnColor_def dayColor_def duskColor_def nightColor_def)

lemma dawn_day_disjoint: "\<not> (dawnBand s t \<and> dayBand s t)"
  by (auto simp: dawnBand_def dayBand_def)

lemma day_dusk_disjoint: "\<not> (dayBand s t \<and> duskBand s t)"
  by (auto simp: dayBand_def duskBand_def)

lemma dawn_dusk_overlap_iff:
  "(\<exists>u. dawnBand s u \<and> duskBand s u) \<longleftrightarrow>
     (sunrise s - 120 < sunset s \<and> sunset s < sunrise s + 90)"
proof
  assume "\<exists>u. dawnBand s u \<and> duskBand s u"
  then show "sunrise s - 120 < sunset s \<and> sunset s < sunrise s + 90"
    by (auto simp: dawnBand_def duskBand_def)
next
  assume a: "sunrise s - 120 < sunset s \<and> sunset s < sunrise s + 90"
  have "dawnBand s (max (sunrise s - 60) (sunset s - 60))
      \<and> duskBand s (max (sunrise s - 60) (sunset s - 60))"
    using a by (auto simp: dawnBand_def duskBand_def max_def)
  then show "\<exists>u. dawnBand s u \<and> duskBand s u"
    by blast
qed

lemma colours_distinct:
  "distinct [dawnColor, dayColor, duskColor, nightColor]"
  by (simp add: dawnColor_def dayColor_def duskColor_def nightColor_def)

text \<open>The examples of the specification, for the window 360 to 1080.\<close>

lemma spec_examples:
  "isNight (\<lambda>m. Some \<lparr>sunrise = 360, sunset = 1080\<rparr>) 200 ''juin''"
  "highlightColor (\<lambda>m. Some \<lparr>sunrise = 360, sunset = 1080\<rparr>) 200 ''juin'' = nightColor"
  "highlightColor (\<lambda>m. Some \<lparr>sunrise = 360, sunset = 1080\<rparr>) 390 ''juin'' = dayColor"
  "highlightColor (\<lambda>m. Some \<lparr>sunrise = 360, sunset = 1080\<rparr>) 500 ''juin'' = dayColor"
  "highlightColor (\<lambda>m. Some \<lparr>sunrise = 360, sunset = 1080\<rparr>) 1100 ''juin'' = duskColor"
  by (simp_all add: isNight_def highlightColor_def solarFor_def nightColor_def dayColor_def
      duskColor_def)

text \<open>
  Claim C2, as amended. For every time and solar window the bands are tried in the order
  dawn, day, dusk and the first that holds decides: the dawn colour in
  \<open>[sunrise - 60, sunrise + 30)\<close>, the day colour in \<open>[sunrise + 30, sunset - 60)\<close>, the
  dusk colour in \<open>[sunset - 60, sunset + 60)\<close> outside the dawn band, and the night
  colour outside all three, so exactly one branch applies. The dawn and day bands are
  disjoint, and so are the day and dusk bands; the dawn and dusk bands share a time
  exactly when \<open>sunrise - 120 < sunset < sunrise + 90\<close>. For every other window the three
  bands are disjoint and the dusk colour is returned on the whole dusk band.
\<close>

theorem C2_highlight_first_match:
  assumes s: "solarFor T month = s"
  shows "(dawnBand s t \<longrightarrow> highlightColor T t month = dawnColor)
       \<and> (dayBand s t \<longrightarrow> highlightColor T t month = dayColor)
       \<and> (duskBand s t \<and> \<not> dawnBand s t \<longrightarrow> highlightColor T t month = duskColor)
       \<and> (\<not> dawnBand s t \<and> \<not> dayBand s t \<and> \<not> duskBand s t \<longrightarrow>
            highlightColor T t month = nightColor)
       \<and> \<not> (dawnBand s t \<and> dayBand s t)
       \<and> \<not> (dayBand s t \<and> duskBand s t)
       \<and> ((\<exists>u. dawnBand s u \<and> duskBand s u) \<longleftrightarrow>
            sunrise s - 120 < sunset s \<and> sunset s < sunrise s + 90)
       \<and> (sunrise s + 90 \<le> sunset s \<or> sunset s \<le> sunrise s - 120 \<longrightarrow>
            \<not> (dawnBand s t \<and> duskBand s t)
            \<and> (duskBand s t \<longrightarrow> highlightColor T t month = duskColor))
       \<and> distinct [dawnColor, dayColor, duskColor, nightColor]"
proof -
  have hc: "highlightColor T t month =
     (if dawnBand s t then dawnColor else if dayBand s t then dayColor
      else if duskBand s t then duskColor else nightColor)"
    using highlightColor_bands [of T t month] s by simp
  have d1: "\<not> (dawnBand s t \<and> dayBand s t)" by (rule dawn_day_disjoint)
  have d2: "\<not> (dayBand s t \<and> duskBand s t)" by (rule day_dusk_disjoint)
  have ov: "(\<exists>u. dawnBand s u \<and> duskBand s u) \<longleftrightarrow>
            sunrise s - 120 < sunset s \<and> sunset s < sunrise s + 90"
    by (rule dawn_dusk_overlap_iff)
  have a: "dawnBand s t \<longrightarrow> highlightColor T t month = dawnColor"
    using hc by simp
  have b: "dayBand s t \<longrightarrow> highlightColor T t month = dayColor"
    using hc d1 by auto
  have c: "duskBand s t \<and> \<not> dawnBand s t \<longrightarrow> highlightColor T t month = duskColor"
    using hc d2 by auto
  have d: "\<not> dawnBand s t \<and> \<not> dayBand s t \<and> \<not> duskBand s t \<longrightarrow>
            highlightColor T t month = nightColor"
    using hc by simp
  have e: "sunrise s + 90 \<le> sunset s \<or> sunset s \<le> sunrise s - 120 \<longrightarrow>
            \<not> (dawnBand s t \<and> duskBand s t)
            \<and> (duskBand s t \<longrightarrow> highlightColor T t month = duskColor)"
  proof
    assume w: "sunrise s + 90 \<le> sunset s \<or> sunset s \<le> sunrise s - 120"
    then have "\<not> (\<exists>u. dawnBand s u \<and> duskBand s u)"
      unfolding ov by auto
    then have n: "\<not> (dawnBand s t \<and> duskBand s t)"
      by blast
    then show "\<not> (dawnBand s t \<and> duskBand s t)
            \<and> (duskBand s t \<longrightarrow> highlightColor T t month = duskColor)"
      using c by blast
  qed
  show ?thesis
    using a b c d d1 d2 ov e colours_distinct by (simp only: simp_thms)
qed

theorem C2_highlight_first_match_witness:
  "highlightColor (\<lambda>m. None) 1100 ''juin'' = duskColor
   \<and> highlightColor (\<lambda>m. None) 200 ''juin'' = nightColor
   \<and> highlightColor (\<lambda>m. None) 390 ''juin'' = dayColor
   \<and> highlightColor (\<lambda>m. None) 389 ''juin'' = dawnColor"
proof -
  have s: "solarFor (\<lambda>m. None) ''juin'' = \<lparr>sunrise = 360, sunset = 1080\<rparr>"
    by (simp add: solarFor_def)
  have a: "highlightColor (\<lambda>m. None) 1100 ''juin'' = duskColor"
    using C2_highlight_first_match [OF s, of 1100] by (simp add: duskBand_def dawnBand_def)
  have b: "highlightColor (\<lambda>m. None) 200 ''juin'' = nightColor"
    using C2_highlight_first_match [OF s, of 200]
    by (simp add: duskBand_def dawnBand_def dayBand_def)
  have c: "highlightColor (\<lambda>m. None) 390 ''juin'' = dayColor"
    using C2_highlight_first_match [OF s, of 390] by (simp add: dayBand_def)
  have d: "highlightColor (\<lambda>m. None) 389 ''juin'' = dawnColor"
    using C2_highlight_first_match [OF s, of 389] by (simp add: dawnBand_def)
  show ?thesis using a b c d by simp
qed

text \<open>
  The claim as written takes the bands to be disjoint for every window. For the window
  360 to 400 the time 350 is in the dawn band and in the dusk band, and the colour is
  the dawn colour, not the dusk colour.
\<close>

theorem C2_overlapping_bands_counterexample:
  "duskBand \<lparr>sunrise = 360, sunset = 400\<rparr> 350
   \<and> dawnBand \<lparr>sunrise = 360, sunset = 400\<rparr> 350
   \<and> highlightColor (\<lambda>m. Some \<lparr>sunrise = 360, sunset = 400\<rparr>) 350 ''juin'' = dawnColor
   \<and> highlightColor (\<lambda>m. Some \<lparr>sunrise = 360, sunset = 400\<rparr>) 350 ''juin'' \<noteq> duskColor"
  by (simp add: highlightColor_def solarFor_def dawnColor_def duskColor_def duskBand_def
      dawnBand_def)

text \<open>
  Claim C7. \<open>isNight\<close> is true exactly when the time is before sunrise or after
  sunset, both comparisons being strict; so for a solar window, whose sunrise is not
  after its sunset, it is false at the time of sunrise and at the time of sunset. When
  the table has no window for the month, the window is 360 to 1080 for \<open>isNight\<close> and
  for the highlight colour alike; otherwise it is the window of the table.
\<close>

theorem C7_isNight_strict:
  assumes s: "solarFor T month = s"
  shows "(isNight T t month \<longleftrightarrow> t < sunrise s \<or> t > sunset s)
       \<and> (sunrise s \<le> sunset s \<longrightarrow>
            \<not> isNight T (sunrise s) month \<and> \<not> isNight T (sunset s) month)
       \<and> (T month = None \<longrightarrow>
            s = \<lparr>sunrise = 360, sunset = 1080\<rparr>
            \<and> (isNight T t month \<longleftrightarrow> t < 360 \<or> t > 1080)
            \<and> highlightColor T t month =
                (if 360 - 60 \<le> t \<and> t < 360 + 30 then dawnColor
                 else if 360 + 30 \<le> t \<and> t < 1080 - 60 then dayColor
                 else if 1080 - 60 \<le> t \<and> t < 1080 + 60 then duskColor
                 else nightColor))
       \<and> (case T month of None \<Rightarrow> True | Some w \<Rightarrow> s = w)"
proof -
  have n: "isNight T u month \<longleftrightarrow> u < sunrise s \<or> u > sunset s" for u
    using s by (simp add: isNight_def Let_def)
  have b: "sunrise s \<le> sunset s \<longrightarrow>
            \<not> isNight T (sunrise s) month \<and> \<not> isNight T (sunset s) month"
    unfolding n by simp
  have c: "T month = None \<longrightarrow>
            s = \<lparr>sunrise = 360, sunset = 1080\<rparr>
            \<and> (isNight T t month \<longleftrightarrow> t < 360 \<or> t > 1080)
            \<and> highlightColor T t month =
                (if 360 - 60 \<le> t \<and> t < 360 + 30 then dawnColor
                 else if 360 + 30 \<le> t \<and> t < 1080 - 60 then dayColor
                 else if 1080 - 60 \<le> t \<and> t < 1080 + 60 then duskColor
                 else nightColor)"
    using s
    by (auto simp: isNight_def highlightColor_def solarFor_def Let_def dawnColor_def
        dayColor_def duskColor_def nightColor_def)
  have d: "case T month of None \<Rightarrow> True | Some w \<Rightarrow> s = w"
    using s by (simp add: solarFor_def split: option.splits)
  show ?thesis
    using n [of t] b c d by (simp only: simp_thms)
qed

theorem C7_isNight_strict_witness:
  "isNight (\<lambda>m. None) 200 ''juin'' \<and> \<not> isNight (\<lambda>m. None) 360 ''juin''
   \<and> \<not> isNight (\<lambda>m. None) 1080 ''juin'' \<and> isNight (\<lambda>m. None) 1081 ''juin''"
proof -
  have s: "solarFor (\<lambda>m. None) ''juin'' = \<lparr>sunrise = 360, sunset = 1080\<rparr>"
    by (simp add: solarFor_def)
  show ?thesis
    using C7_isNight_strict [OF s, of 200] C7_isNight_strict [OF s, of 360]
      C7_isNight_strict [OF s, of 1080] C7_isNight_strict [OF s, of 1081]
    by simp
qed

section \<open>Properties of the geometry source adapter\<close>

lemma filter_js_total:
  assumes "list_all (\<lambda>a. p a = Inr (q a)) xs"
  shows "filter_js p xs = Inr (filter q xs)"
  using assms by (induction xs) auto

lemma filter_js_result:
  assumes "filter_js p xs = Inr r"
  shows "set r \<subseteq> set xs \<and> (\<forall>a \<in> set r. p a = Inr True)"
  using assms
proof (induction xs arbitrary: r)
  case Nil
  then show ?case by simp
next
  case (Cons a as)
  then show ?case
    by (auto split: sum.splits if_splits)
qed

lemma find_js_total:
  assumes "\<forall>a \<in> set xs. p a = Inr (q a)"
  shows "find_js p xs = Inr (List.find q xs)"
  using assms by (induction xs) auto

lemma partition_wellformed:
  assumes fs: "features g = Features fs" and wf: "list_all (\<lambda>f. properties f \<noteq> None) fs"
  shows "metropoleFeatures g = Inr (filter (\<lambda>f. \<not> isInset f) fs)"
    and "dromFeatures g = Inr (filter isInset fs)"
proof -
  have a: "list_all (\<lambda>f. (case regionCode f of Inl e \<Rightarrow> Inl e
              | Inr c \<Rightarrow> Inr (c \<notin> set DROM_CODES)) = Inr (\<not> isInset f)) fs"
    using wf by (induction fs) (auto simp: regionCode_def isInset_def)
  have b: "list_all (\<lambda>f. (case regionCode f of Inl e \<Rightarrow> Inl e
              | Inr c \<Rightarrow> Inr (c \<in> set DROM_CODES)) = Inr (isInset f)) fs"
    using wf by (induction fs) (auto simp: regionCode_def isInset_def)
  show "metropoleFeatures g = Inr (filter (\<lambda>f. \<not> isInset f) fs)"
    unfolding metropoleFeatures_def fs using filter_js_total [OF a] by simp
  show "dromFeatures g = Inr (filter isInset fs)"
    unfolding dromFeatures_def fs using filter_js_total [OF b] by simp
qed

lemma dromFeatures_have_properties:
  assumes "dromFeatures g = Inr ds" and "f \<in> set ds"
  shows "\<exists>props. properties f = Some props \<and> code props \<in> set DROM_CODES"
proof (cases "features g")
  case Falsy
  then show ?thesis using assms by (simp add: dromFeatures_def)
next
  case NotArray
  then show ?thesis using assms by (simp add: dromFeatures_def)
next
  case (Features fs)
  then have "filter_js (\<lambda>f. case regionCode f of Inl e \<Rightarrow> Inl e
              | Inr c \<Rightarrow> Inr (c \<in> set DROM_CODES)) fs = Inr ds"
    using assms by (simp add: dromFeatures_def)
  from filter_js_result [OF this] assms(2)
  have "(case regionCode f of Inl e \<Rightarrow> Inl e | Inr c \<Rightarrow> Inr (c \<in> set DROM_CODES))
      = (Inr True :: js_error + bool)"
    by blast
  then show ?thesis
    by (auto simp: regionCode_def split: option.splits sum.splits)
qed

lemma metropoleFeatures_have_properties:
  assumes "metropoleFeatures g = Inr ms" and "f \<in> set ms"
  shows "\<exists>props. properties f = Some props \<and> code props \<notin> set DROM_CODES"
proof (cases "features g")
  case Falsy
  then show ?thesis using assms by (simp add: metropoleFeatures_def)
next
  case NotArray
  then show ?thesis using assms by (simp add: metropoleFeatures_def)
next
  case (Features fs)
  then have "filter_js (\<lambda>f. case regionCode f of Inl e \<Rightarrow> Inl e
              | Inr c \<Rightarrow> Inr (c \<notin> set DROM_CODES)) fs = Inr ms"
    using assms by (simp add: metropoleFeatures_def)
  from filter_js_result [OF this] assms(2)
  have "(case regionCode f of Inl e \<Rightarrow> Inl e | Inr c \<Rightarrow> Inr (c \<notin> set DROM_CODES))
      = (Inr True :: js_error + bool)"
    by blast
  then show ?thesis
    by (auto simp: regionCode_def split: option.splits sum.splits)
qed

text \<open>
  Claim C6, as amended. A collection whose \<open>features\<close> is an array of features that all
  have \<open>properties\<close> is split into the mainland features (code not among the five inset
  codes) and the inset features (code among them), in order, each feature in exactly one
  of the two and none lost or doubled. A collection whose \<open>features\<close> is missing or
  empty gives two empty lists, and so does the collection stored after a failed fetch.
\<close>

theorem C6_partition_by_inset_code:
  "(features g = Features fs \<and> list_all (\<lambda>f. properties f \<noteq> None) fs \<longrightarrow>
      metropoleFeatures g = Inr (filter (\<lambda>f. \<not> isInset f) fs)
      \<and> dromFeatures g = Inr (filter isInset fs)
      \<and> mset (filter (\<lambda>f. \<not> isInset f) fs) + mset (filter isInset fs) = mset fs
      \<and> list_all (\<lambda>f. (f \<in> set (filter isInset fs)) \<noteq> (f \<in> set (filter (\<lambda>f. \<not> isInset f) fs))) fs)
   \<and> (features g = Falsy \<or> features g = Features [] \<longrightarrow>
        metropoleFeatures g = Inr [] \<and> dromFeatures g = Inr [])
   \<and> loadGeoData FetchFailed = Some \<lparr>features = Features []\<rparr>
   \<and> metropoleFeatures \<lparr>features = Features []\<rparr> = Inr []
   \<and> dromFeatures \<lparr>features = Features []\<rparr> = Inr []
   \<and> length DROM_CODES = 5 \<and> distinct DROM_CODES"
proof -
  have a: "features g = Features fs \<and> list_all (\<lambda>f. properties f \<noteq> None) fs \<longrightarrow>
      metropoleFeatures g = Inr (filter (\<lambda>f. \<not> isInset f) fs)
      \<and> dromFeatures g = Inr (filter isInset fs)
      \<and> mset (filter (\<lambda>f. \<not> isInset f) fs) + mset (filter isInset fs) = mset fs
      \<and> list_all (\<lambda>f. (f \<in> set (filter isInset fs)) \<noteq> (f \<in> set (filter (\<lambda>f. \<not> isInset f) fs))) fs"
    using partition_wellformed [of g fs]
    by (auto simp: list_all_iff)
  have b: "features g = Falsy \<or> features g = Features [] \<longrightarrow>
        metropoleFeatures g = Inr [] \<and> dromFeatures g = Inr []"
    by (auto simp: metropoleFeatures_def dromFeatures_def)
  have c: "loadGeoData FetchFailed = Some \<lparr>features = Features []\<rparr>"
    by (simp add: loadGeoData_def)
  have d: "metropoleFeatures \<lparr>features = Features []\<rparr> = Inr []
      \<and> dromFeatures \<lparr>features = Features []\<rparr> = Inr []"
    by (simp add: metropoleFeatures_def dromFeatures_def)
  have e: "length DROM_CODES = 5 \<and> distinct DROM_CODES"
    by (simp add: DROM_CODES_def)
  show ?thesis
    using a b c d e by (simp only: simp_thms)
qed

theorem C6_partition_by_inset_code_witness:
  "metropoleFeatures \<lparr>features = Features [ain, guadeloupe]\<rparr> = Inr [ain]
   \<and> dromFeatures \<lparr>features = Features [ain, guadeloupe]\<rparr> = Inr [guadeloupe]
   \<and> metropoleFeatures \<lparr>features = Falsy\<rparr> = Inr []
   \<and> dromFeatures \<lparr>features = Falsy\<rparr> = Inr []"
proof -
  have a: "isInset guadeloupe" and b: "\<not> isInset ain"
    by (simp_all add: isInset_def guadeloupe_def ain_def DROM_CODES_def)
  have wf: "list_all (\<lambda>f. properties f \<noteq> None) [ain, guadeloupe]"
    by (simp add: guadeloupe_def ain_def)
  show ?thesis
    using C6_partition_by_inset_code [of "\<lparr>features = Features [ain, guadeloupe]\<rparr>" "[ain, guadeloupe]"]
      C6_partition_by_inset_code [of "\<lparr>features = Falsy\<rparr>" "[]"] a b wf
    by simp
qed

text \<open>
  The claim as written promises two empty lists for every malformed collection. A
  collection whose \<open>features\<close> is a truthy value that is no array, or an array with an
  element without \<open>properties\<close>, makes both filters throw a \<open>TypeError\<close>.
\<close>

theorem C6_malformed_collection_counterexample:
  "metropoleFeatures \<lparr>features = NotArray\<rparr> = Inl TypeError
   \<and> dromFeatures \<lparr>features = NotArray\<rparr> = Inl TypeError
   \<and> metropoleFeatures \<lparr>features = Features [\<lparr>properties = None, geometry = []\<rparr>]\<rparr> = Inl TypeError
   \<and> dromFeatures \<lparr>features = Features [\<lparr>properties = None, geometry = []\<rparr>]\<rparr> = Inl TypeError
   \<and> metropoleFeatures \<lparr>features = NotArray\<rparr> \<noteq> Inr []"
  by (simp add: metropoleFeatures_def dromFeatures_def regionCode_def)

section \<open>Properties of the rendering\<close>

lemma find_drom:
  assumes ds: "dromFeatures g = Inr ds"
  shows "find_js (\<lambda>f. case regionCode f of Inl e \<Rightarrow> Inl e | Inr c' \<Rightarrow> Inr (c' = c)) ds
       = Inr (List.find (\<lambda>f. regionCode f = Inr c) ds)"
proof (rule find_js_total, rule ballI)
  fix f assume "f \<in> set ds"
  from dromFeatures_have_properties [OF ds this]
  obtain props where "properties f = Some props" by blast
  then show "(case regionCode f of Inl e \<Rightarrow> Inl e | Inr c' \<Rightarrow> Inr (c' = c))
      = Inr (regionCode f = Inr c)"
    by (simp add: regionCode_def)
qed

lemma getDromConfig_defined:
  assumes "c \<in> set DROM_CODES"
  shows "\<exists>config. map_of (getDromConfig m) c = Some config"
proof -
  have "c \<in> dom (map_of (getDromConfig m))"
    using assms by (simp add: dom_map_of_conv_image_fst flip: getDromConfig_keys [of m])
  then show ?thesis by blast
qed

lemma renderDrom_value:
  assumes ds: "dromFeatures g = Inr ds" and cfg: "map_of dromConfig c = Some config"
    and bx: "box config = ((x0, y0), (x1, y1))"
  shows "renderDrom fitPath dromConfig ds c =
     Inr (Some
       \<lparr>ig_key = c, ig_enter = name config, ig_click = name config,
        ig_rect = (x0, y0, x1 - x0, y1 - y0),
        ig_shape =
          (case (case List.find (\<lambda>f. regionCode f = Inr c) ds of
                   None \<Rightarrow> None
                 | Some f \<Rightarrow> truthyPath (fitPath (fitExtentOf (box config)) f)) of
             Some s \<Rightarrow> ShapePath s
           | None \<Rightarrow> InitialsText (x0 + (x1 - x0) / 2) (y0 + (y1 - y0) / 2 + 5) (initials config)),
        ig_label = (x0 + (x1 - x0) / 2, y1 - 6, name config)\<rparr>)"
  unfolding renderDrom_def find_drom [OF ds] using cfg bx
  by (simp add: Let_def)

lemma truthyPath_None:
  "truthyPath r = None \<longleftrightarrow> r \<in> {Throws, NullPath, PathString []}"
  by (cases r) (auto simp: truthyPath_def)

lemma no_path_attribute:
  assumes "\<forall>f \<in> set ds. P f \<longrightarrow> tp f = None"
  shows "(case List.find P ds of None \<Rightarrow> None | Some f \<Rightarrow> tp f) = None"
proof (cases "List.find P ds")
  case None
  then show ?thesis by simp
next
  case (Some f)
  then have "P f \<and> f \<in> set ds"
    by (auto simp: find_Some_iff)
  then show ?thesis
    using assms Some by simp
qed

lemma map_js_keyed:
  assumes "\<forall>a \<in> set xs. \<exists>b. f a = Inr (Some b) \<and> key b = a"
  shows "\<exists>bs. map_js f xs = Inr (map Some bs) \<and> map key bs = xs"
  using assms
proof (induction xs)
  case Nil
  then show ?case by simp
next
  case (Cons a as)
  then obtain b where b: "f a = Inr (Some b)" "key b = a"
    by auto
  from Cons obtain bs where bs: "map_js f as = Inr (map Some bs)" "map key bs = as"
    by auto
  show ?case
    by (rule exI [of _ "b # bs"]) (use b bs in simp)
qed

lemma droms_all_rendered:
  assumes ds: "dromFeatures g = Inr ds"
  shows "\<exists>gs. map_js (renderDrom fitPath (getDromConfig m) ds) DROM_CODES = Inr (map Some gs)
       \<and> map ig_key gs = DROM_CODES"
proof (rule map_js_keyed, rule ballI)
  fix c assume "c \<in> set DROM_CODES"
  then obtain config where cfg: "map_of (getDromConfig m) c = Some config"
    using getDromConfig_defined by blast
  obtain x0 y0 x1 y1 where bx: "box config = ((x0, y0), (x1, y1))"
    by (metis surj_pair)
  show "\<exists>b. renderDrom fitPath (getDromConfig m) ds c = Inr (Some b) \<and> ig_key b = c"
    unfolding renderDrom_value [OF ds cfg bx] by simp
qed

text \<open>
  Claim C8. For the inset features the adapter returned, any inset code \<open>c\<close> of the
  layout and any behaviour of the fitting library, rendering the inset returns a group and
  never throws; the group has the rectangle of the configured box and the name label.
  When no feature has the code \<open>c\<close>, or the fit of the feature throws, returns
  \<^verbatim>\<open>null\<close> or returns an empty path, the group shows the initials of the inset at
  the centre of the box instead of a shape. All five inset codes are rendered, in the
  order of \<^const>\<open>DROM_CODES\<close>, whatever the fits do.
\<close>

theorem C8_inset_fallback:
  assumes ds: "dromFeatures g = Inr ds"
    and cfg: "map_of (getDromConfig m) c = Some config"
    and bx: "box config = ((x0, y0), (x1, y1))"
  shows "(\<exists>grp. renderDrom fitPath (getDromConfig m) ds c = Inr (Some grp)
            \<and> ig_key grp = c
            \<and> ig_rect grp = (x0, y0, x1 - x0, y1 - y0)
            \<and> ig_label grp = (x0 + (x1 - x0) / 2, y1 - 6, name config)
            \<and> ig_enter grp = name config \<and> ig_click grp = name config
            \<and> ((\<forall>f \<in> set ds. regionCode f = Inr c \<longrightarrow>
                   fitPath (fitExtentOf (box config)) f \<in> {Throws, NullPath, PathString []}) \<longrightarrow>
                 ig_shape grp =
                   InitialsText (x0 + (x1 - x0) / 2) (y0 + (y1 - y0) / 2 + 5) (initials config)))
       \<and> (\<exists>gs. map_js (renderDrom fitPath (getDromConfig m) ds) DROM_CODES = Inr (map Some gs)
            \<and> map ig_key gs = DROM_CODES)"
proof -
  have fallback: "(case List.find (\<lambda>f. regionCode f = Inr c) ds of
                   None \<Rightarrow> None
                 | Some f \<Rightarrow> truthyPath (fitPath (fitExtentOf (box config)) f)) = None"
    if "\<forall>f \<in> set ds. regionCode f = Inr c \<longrightarrow>
          fitPath (fitExtentOf (box config)) f \<in> {Throws, NullPath, PathString []}"
    using that by (intro no_path_attribute) (simp add: truthyPath_None)
  have one: "\<exists>grp. renderDrom fitPath (getDromConfig m) ds c = Inr (Some grp)
            \<and> ig_key grp = c
            \<and> ig_rect grp = (x0, y0, x1 - x0, y1 - y0)
            \<and> ig_label grp = (x0 + (x1 - x0) / 2, y1 - 6, name config)
            \<and> ig_enter grp = name config \<and> ig_click grp = name config
            \<and> ((\<forall>f \<in> set ds. regionCode f = Inr c \<longrightarrow>
                   fitPath (fitExtentOf (box config)) f \<in> {Throws, NullPath, PathString []}) \<longrightarrow>
                 ig_shape grp =
                   InitialsText (x0 + (x1 - x0) / 2) (y0 + (y1 - y0) / 2 + 5) (initials config))"
    unfolding renderDrom_value [OF ds cfg bx] using fallback by simp
  show ?thesis
    using one droms_all_rendered [OF ds] by blast
qed

theorem C8_inset_fallback_witness:
  "renderDrom exampleFit (getDromConfig False) [guadeloupe] ''971'' =
     Inr (Some \<lparr>ig_key = ''971'', ig_enter = ''Guadeloupe'', ig_click = ''Guadeloupe'',
                ig_rect = (5, 20, 70, 80), ig_shape = InitialsText 40 65 ''GP'',
                ig_label = (40, 94, ''Guadeloupe'')\<rparr>)"
proof -
  have ds: "dromFeatures \<lparr>features = Features [guadeloupe]\<rparr> = Inr [guadeloupe]"
    by (simp add: dromFeatures_def regionCode_def guadeloupe_def DROM_CODES_def)
  have cfg: "map_of (getDromConfig False) ''971''
      = Some \<lparr>name = ''Guadeloupe'', initials = ''GP'', box = ((5, 20), (75, 100))\<rparr>"
    by (simp add: getDromConfig_def)
  have bx: "box \<lparr>name = ''Guadeloupe'', initials = ''GP'', box = ((5, 20), (75, 100))\<rparr>
      = ((5, 20), (75, 100))"
    by simp
  have nopath: "\<forall>f \<in> set [guadeloupe]. regionCode f = Inr ''971'' \<longrightarrow>
      exampleFit (fitExtentOf (box \<lparr>name = ''Guadeloupe'', initials = ''GP'',
         box = ((5, 20), (75, 100))\<rparr>)) f \<in> {Throws, NullPath, PathString []}"
    by (simp add: exampleFit_def guadeloupe_def)
  from C8_inset_fallback [OF ds cfg bx, of exampleFit] nopath
  obtain grp where g: "renderDrom exampleFit (getDromConfig False) [guadeloupe] ''971'' = Inr (Some grp)"
    and k: "ig_key grp = ''971''" and r: "ig_rect grp = (5, 20, 75 - 5, 100 - 20)"
    and l: "ig_label grp = (5 + (75 - 5) / 2, 100 - 6, ''Guadeloupe'')"
    and e: "ig_enter grp = ''Guadeloupe''" and cl: "ig_click grp = ''Guadeloupe''"
    and sh: "ig_shape grp = InitialsText (5 + (75 - 5) / 2) (20 + (100 - 20) / 2 + 5) ''GP''"
    by auto
  have "grp = \<lparr>ig_key = ''971'', ig_enter = ''Guadeloupe'', ig_click = ''Guadeloupe'',
                ig_rect = (5, 20, 70, 80), ig_shape = InitialsText 40 65 ''GP'',
                ig_label = (40, 94, ''Guadeloupe'')\<rparr>"
    using k r l e cl sh by (cases grp) simp
  then show ?thesis using g by simp
qed

text \<open>
  Claim C10. Every feature the adapter returned as mainland has \<open>properties\<close>. When
  the main path generator returns \<^verbatim>\<open>null\<close> (or an empty path) for it, rendering it
  returns a group, without throwing, whose path attribute is absent and whose hover and
  click targets are the feature's name; the same targets are there for every result of
  the generator that is not an exception.
\<close>

theorem C10_mainland_null_path:
  assumes ms: "metropoleFeatures g = Inr ms" and f: "feature \<in> set ms"
  shows "\<exists>props. properties feature = Some props
       \<and> (mainPathGenerator feature \<in> {NullPath, PathString []} \<longrightarrow>
            (\<exists>grp. renderMetropole mainPathGenerator selectedRegion hoveredDept hc feature = Inr grp
               \<and> mg_d grp = None \<and> mg_key grp = code props
               \<and> mg_enter grp = nom props \<and> mg_click grp = nom props))
       \<and> (mainPathGenerator feature \<noteq> Throws \<longrightarrow>
            (\<exists>grp. renderMetropole mainPathGenerator selectedRegion hoveredDept hc feature = Inr grp
               \<and> mg_d grp = truthyPath (mainPathGenerator feature) \<and> mg_key grp = code props
               \<and> mg_enter grp = nom props \<and> mg_click grp = nom props))"
proof -
  from metropoleFeatures_have_properties [OF ms f]
  obtain props where p: "properties feature = Some props"
    by blast
  have a: "mainPathGenerator feature \<noteq> Throws \<longrightarrow>
            (\<exists>grp. renderMetropole mainPathGenerator selectedRegion hoveredDept hc feature = Inr grp
               \<and> mg_d grp = truthyPath (mainPathGenerator feature) \<and> mg_key grp = code props
               \<and> mg_enter grp = nom props \<and> mg_click grp = nom props)"
    using p by (cases "mainPathGenerator feature") (simp_all add: renderMetropole_def Let_def)
  have b: "mainPathGenerator feature \<in> {NullPath, PathString []} \<longrightarrow>
            (\<exists>grp. renderMetropole mainPathGenerator selectedRegion hoveredDept hc feature = Inr grp
               \<and> mg_d grp = None \<and> mg_key grp = code props
               \<and> mg_enter grp = nom props \<and> mg_click grp = nom props)"
    using a by (auto simp: truthyPath_def)
  show ?thesis
    using p a b by blast
qed

theorem C10_mainland_null_path_witness:
  "map_sum id mg_d (renderMetropole nullGenerator (Some ''Ain'') None ''#06b6d4'' ain) = Inr None
   \<and> map_sum id mg_enter (renderMetropole nullGenerator (Some ''Ain'') None ''#06b6d4'' ain)
       = Inr ''Ain''
   \<and> map_sum id mg_click (renderMetropole nullGenerator (Some ''Ain'') None ''#06b6d4'' ain)
       = Inr ''Ain''"
proof -
  have ms: "metropoleFeatures \<lparr>features = Features [ain]\<rparr> = Inr [ain]"
    by (simp add: metropoleFeatures_def regionCode_def ain_def DROM_CODES_def)
  have f: "ain \<in> set [ain]"
    by simp
  have n: "nullGenerator ain \<in> {NullPath, PathString []}"
    by (simp add: nullGenerator_def)
  from C10_mainland_null_path [OF ms f, of nullGenerator "Some ''Ain''" None "''#06b6d4''"] n
  obtain props grp where p: "properties ain = Some props"
    and g: "renderMetropole nullGenerator (Some ''Ain'') None ''#06b6d4'' ain = Inr grp"
    and d: "mg_d grp = None" and e: "mg_enter grp = nom props" and c: "mg_click grp = nom props"
    by auto
  have "nom props = ''Ain''"
    using p by (auto simp: ain_def)
  then show ?thesis
    using g d e c by simp
qed

subsection \<open>The component as a whole\<close>

text \<open>
  While no data is stored the component shows the loading placeholder. After a failed
  fetch it renders a map with no mainland group and the five inset groups. Whenever the
  adapter and the mainland rendering succeed, the component renders, whatever the fits of
  the insets do.
\<close>

lemma FranceMap_loading:
  "FranceMap S mainPathGenerator fitPath sel t month None hov m = Inr Loading"
  by (simp add: FranceMap_def)

lemma FranceMap_after_failed_fetch:
  "\<exists>gs. FranceMap S mainPathGenerator fitPath sel t month (loadGeoData FetchFailed) hov m
          = Inr (MapView (isNight S t month) [] (map Some gs))
       \<and> map ig_key gs = DROM_CODES"
proof -
  have ds: "dromFeatures \<lparr>features = Features []\<rparr> = Inr []"
    by (simp add: dromFeatures_def)
  from droms_all_rendered [OF ds, of fitPath m]
  obtain gs where gs: "map_js (renderDrom fitPath (getDromConfig m) []) DROM_CODES = Inr (map Some gs)"
    and keys: "map ig_key gs = DROM_CODES"
    by blast
  have "FranceMap S mainPathGenerator fitPath sel t month (loadGeoData FetchFailed) hov m
          = Inr (MapView (isNight S t month) [] (map Some gs))"
    using gs by (simp add: FranceMap_def loadGeoData_def metropoleFeatures_def dromFeatures_def)
  then show ?thesis
    using keys by blast
qed

lemma FranceMap_insets_never_abort:
  assumes "metropoleFeatures g = Inr ms" and "dromFeatures g = Inr ds"
    and "map_js (renderMetropole (mainPathGenerator m) sel hov
           (highlightColor S t month)) ms = Inr mg"
  shows "\<exists>gs. FranceMap S mainPathGenerator fitPath sel t month (Some g) hov m
          = Inr (MapView (isNight S t month) mg (map Some gs))
       \<and> map ig_key gs = DROM_CODES"
proof -
  from droms_all_rendered [OF assms(2), of fitPath m]
  obtain gs where gs: "map_js (renderDrom fitPath (getDromConfig m) ds) DROM_CODES = Inr (map Some gs)"
    and keys: "map ig_key gs = DROM_CODES"
    by blast
  have "FranceMap S mainPathGenerator fitPath sel t month (Some g) hov m
          = Inr (MapView (isNight S t month) mg (map Some gs))"
    using gs assms by (simp add: FranceMap_def)
  then show ?thesis
    using keys by blast
qed

end
